theory Spec2Isabelle
  imports Main
begin

section \<open>The Go standard library, as far as the package calls it\<close>

text \<open>
  Go strings are byte sequences: \<^typ>\<open>string\<close> (a list of 8-bit characters).
  A run-time panic of the Go program is a value of \<open>panic\<close>; a function that may
  panic returns \<open>panic + 'a\<close>.
\<close>

datatype panic = NilPointerDereference | NilMapAssignment | IndexOutOfRange

definition byte :: "char \<Rightarrow> nat" where
  "byte c = of_char c"

subsection \<open>net/textproto and net/http: header maps\<close>

text \<open>
  \<open>textproto.validHeaderFieldByte\<close>: the token characters of RFC 7230, that is digits,
  letters and \<open>! # $ % & ' * + - . ^ _ ` | ~\<close>.
\<close>

definition validHeaderFieldByte :: "char \<Rightarrow> bool" where
  "validHeaderFieldByte c =
     (let b = byte c in
        (48 \<le> b \<and> b \<le> 57) \<or> (65 \<le> b \<and> b \<le> 90) \<or> (97 \<le> b \<and> b \<le> 122) \<or>
        b \<in> {33, 35, 36, 37, 38, 39, 42, 43, 45, 46, 94, 95, 96, 124, 126})"

definition toLower :: nat where
  "toLower = 32"

text \<open>
  The loop of \<open>textproto.canonicalMIMEHeaderKey\<close>: the first letter and every letter
  after a dash in upper case, every other letter in lower case. \<open>upper\<close> is the loop's
  flag.
\<close>

fun canonicalize :: "bool \<Rightarrow> string \<Rightarrow> string" where
  "canonicalize upper [] = []"
| "canonicalize upper (c # cs) =
     (let c' = (if upper \<and> 97 \<le> byte c \<and> byte c \<le> 122 then char_of (byte c - toLower)
                else if \<not> upper \<and> 65 \<le> byte c \<and> byte c \<le> 90 then char_of (byte c + toLower)
                else c)
      in c' # canonicalize (c' = CHR ''-'') cs)"

text \<open>
  \<open>textproto.CanonicalMIMEHeaderKey\<close>: a key holding a byte that is no token character
  is returned as it is.
\<close>

definition CanonicalMIMEHeaderKey :: "string \<Rightarrow> string" where
  "CanonicalMIMEHeaderKey s =
     (if list_all validHeaderFieldByte s then canonicalize True s else s)"

text \<open>
  \<open>http.Header\<close> is \<open>map[string][]string\<close>. A Go map value may be nil: reading and
  deleting are allowed on a nil map, an assignment panics.
\<close>

type_synonym header = "(string \<rightharpoonup> string list) option"

definition http_Header_Set :: "header \<Rightarrow> string \<Rightarrow> string \<Rightarrow> panic + header" where
  "http_Header_Set h key v =
     (case h of
        None \<Rightarrow> Inl NilMapAssignment
      | Some m \<Rightarrow> Inr (Some (m(CanonicalMIMEHeaderKey key \<mapsto> [v]))))"

definition http_Header_Add :: "header \<Rightarrow> string \<Rightarrow> string \<Rightarrow> panic + header" where
  "http_Header_Add h key v =
     (case h of
        None \<Rightarrow> Inl NilMapAssignment
      | Some m \<Rightarrow>
          (let k = CanonicalMIMEHeaderKey key
           in Inr (Some (m(k \<mapsto> (case m k of None \<Rightarrow> [] | Some vs \<Rightarrow> vs) @ [v])))))"

definition http_Header_Del :: "header \<Rightarrow> string \<Rightarrow> header" where
  "http_Header_Del h key =
     (case h of
        None \<Rightarrow> None
      | Some m \<Rightarrow> Some (m(CanonicalMIMEHeaderKey key := None)))"

definition http_Header_Get :: "header \<Rightarrow> string \<Rightarrow> string" where
  "http_Header_Get h key =
     (case h of
        None \<Rightarrow> []
      | Some m \<Rightarrow>
          (case m (CanonicalMIMEHeaderKey key) of
             None \<Rightarrow> []
           | Some [] \<Rightarrow> []
           | Some (v # _) \<Rightarrow> v))"

subsection \<open>path and path/filepath\<close>

text \<open>\<open>os.IsPathSeparator\<close> on Unix.\<close>

definition IsPathSeparator :: "char \<Rightarrow> bool" where
  "IsPathSeparator c = (c = CHR ''/'')"

text \<open>
  \<open>filepath.Ext\<close> walks from the last byte towards the first, stops at a path
  separator and returns the suffix that starts at the first dot it meets. \<open>extLoop\<close>
  takes the bytes not yet visited in reverse order and the suffix already passed.
\<close>

fun extLoop :: "string \<Rightarrow> string \<Rightarrow> string" where
  "extLoop [] suffix = []"
| "extLoop (c # before) suffix =
     (if IsPathSeparator c then []
      else if c = CHR ''.'' then c # suffix
      else extLoop before (c # suffix))"

definition filepath_Ext :: "string \<Rightarrow> string" where
  "filepath_Ext p = extLoop (rev p) []"

text \<open>
  \<open>path.Base\<close>: the last element of a slash-separated path, trailing slashes removed
  first; \<open>.\<close> for the empty path and \<open>/\<close> for a path of slashes only.
  \<open>path.Split\<close> cuts right after the last slash.
\<close>

definition path_Base :: "string \<Rightarrow> string" where
  "path_Base p =
     (if p = [] then ''.''
      else
        (let stripped = rev (dropWhile (\<lambda>c. c = CHR ''/'') (rev p));
             elem = rev (takeWhile (\<lambda>c. c \<noteq> CHR ''/'') (rev stripped))
         in if elem = [] then ''/'' else elem))"

definition path_Split :: "string \<Rightarrow> string \<times> string" where
  "path_Split p =
     (rev (dropWhile (\<lambda>c. c \<noteq> CHR ''/'') (rev p)),
      rev (takeWhile (\<lambda>c. c \<noteq> CHR ''/'') (rev p)))"

subsection \<open>os: errors and file modes\<close>

text \<open>
  An error of \<open>Open\<close> or \<open>Stat\<close>, by the class \<open>os.IsNotExist\<close> and
  \<open>os.IsPermission\<close> put it in; the two tests read one error number, so no error
  passes both.
\<close>

datatype oserror = ErrNotExist | ErrPermission | ErrOther

definition os_IsNotExist :: "oserror \<Rightarrow> bool" where
  "os_IsNotExist err = (err = ErrNotExist)"

definition os_IsPermission :: "oserror \<Rightarrow> bool" where
  "os_IsPermission err = (err = ErrPermission)"

text \<open>
  \<open>os.FileMode\<close>, by its type bits: no type bit (a regular file), the directory bit,
  or another type bit (device, pipe, socket).
\<close>

datatype FileMode = ModeRegular | ModeDir | ModeOther

definition IsRegular :: "FileMode \<Rightarrow> bool" where
  "IsRegular m = (m = ModeRegular)"

definition IsDir :: "FileMode \<Rightarrow> bool" where
  "IsDir m = (m = ModeDir)"

record FileInfo =
  Mode :: FileMode
  ModTime :: int

record http_File =
  Stat :: "oserror + FileInfo"

section \<open>reply.go: the reply builder\<close>

text \<open>
  \<open>Render\<close> is the renderer interface and \<open>Cookie\<close> is \<open>http.Cookie\<close>; the builder
  stores them and never looks inside. A nil interface, pointer or slice is \<open>None\<close>;
  \<open>body\<close> is the content of the buffer.
\<close>

typedecl Render
typedecl Cookie

record Reply =
  Code :: int
  ContType :: string
  Hdr :: header
  Rdr :: "Render option"
  body :: "string option"
  cookies :: "Cookie list option"
  redirect :: bool
  path :: string
  done' :: bool
  gzip :: bool

text \<open>The elements of a slice; a nil slice has none.\<close>

definition elems :: "'a list option \<Rightarrow> 'a list" where
  "elems s = (case s of None \<Rightarrow> [] | Some xs \<Rightarrow> xs)"

definition StatusOK :: int where "StatusOK = 200"
definition StatusCreated :: int where "StatusCreated = 201"
definition StatusAccepted :: int where "StatusAccepted = 202"
definition StatusNoContent :: int where "StatusNoContent = 204"
definition StatusMovedPermanently :: int where "StatusMovedPermanently = 301"
definition StatusFound :: int where "StatusFound = 302"
definition StatusTemporaryRedirect :: int where "StatusTemporaryRedirect = 307"
definition StatusBadRequest :: int where "StatusBadRequest = 400"
definition StatusUnauthorized :: int where "StatusUnauthorized = 401"
definition StatusForbidden :: int where "StatusForbidden = 403"
definition StatusNotFound :: int where "StatusNotFound = 404"
definition StatusMethodNotAllowed :: int where "StatusMethodNotAllowed = 405"
definition StatusConflict :: int where "StatusConflict = 409"
definition StatusInternalServerError :: int where "StatusInternalServerError = 500"
definition StatusServiceUnavailable :: int where "StatusServiceUnavailable = 503"

text \<open>\<open>ahttp.HeaderContentType\<close> and \<open>ahttp.HeaderContentDisposition\<close>.\<close>

definition HeaderContentType :: string where
  "HeaderContentType = ''Content-Type''"

definition HeaderContentDisposition :: string where
  "HeaderContentDisposition = ''Content-Disposition''"

text \<open>
  A method with receiver \<open>r *Reply\<close> is modelled by its effect on the struct \<open>r\<close>
  points to: it takes the struct before the call and returns the struct after it.
\<close>

definition NewReply :: Reply where
  "NewReply =
     \<lparr>Code = StatusOK, ContType = [], Hdr = Some Map.empty, Rdr = None, body = None,
      cookies = None, redirect = False, path = [], done' = False, gzip = True\<rparr>"

definition Status :: "int \<Rightarrow> Reply \<Rightarrow> Reply" where
  "Status code r = r\<lparr>Code := code\<rparr>"

definition Ok :: "Reply \<Rightarrow> Reply" where
  "Ok r = Status StatusOK r"

definition Created :: "Reply \<Rightarrow> Reply" where
  "Created r = Status StatusCreated r"

definition Accepted :: "Reply \<Rightarrow> Reply" where
  "Accepted r = Status StatusAccepted r"

definition NoContent :: "Reply \<Rightarrow> Reply" where
  "NoContent r = Status StatusNoContent r"

definition MovedPermanently :: "Reply \<Rightarrow> Reply" where
  "MovedPermanently r = Status StatusMovedPermanently r"

definition Found :: "Reply \<Rightarrow> Reply" where
  "Found r = Status StatusFound r"

definition TemporaryRedirect :: "Reply \<Rightarrow> Reply" where
  "TemporaryRedirect r = Status StatusTemporaryRedirect r"

definition BadRequest :: "Reply \<Rightarrow> Reply" where
  "BadRequest r = Status StatusBadRequest r"

definition Unauthorized :: "Reply \<Rightarrow> Reply" where
  "Unauthorized r = Status StatusUnauthorized r"

definition Forbidden :: "Reply \<Rightarrow> Reply" where
  "Forbidden r = Status StatusForbidden r"

definition NotFound :: "Reply \<Rightarrow> Reply" where
  "NotFound r = Status StatusNotFound r"

definition MethodNotAllowed :: "Reply \<Rightarrow> Reply" where
  "MethodNotAllowed r = Status StatusMethodNotAllowed r"

definition Conflict :: "Reply \<Rightarrow> Reply" where
  "Conflict r = Status StatusConflict r"

definition InternalServerError :: "Reply \<Rightarrow> Reply" where
  "InternalServerError r = Status StatusInternalServerError r"

definition ServiceUnavailable :: "Reply \<Rightarrow> Reply" where
  "ServiceUnavailable r = Status StatusServiceUnavailable r"

definition ContentType :: "string \<Rightarrow> Reply \<Rightarrow> Reply" where
  "ContentType contentType r = r\<lparr>ContType := contentType\<rparr>"

definition RedirectSts :: "string \<Rightarrow> int \<Rightarrow> Reply \<Rightarrow> Reply" where
  "RedirectSts redirectURL code r =
     (Status code (r\<lparr>redirect := True\<rparr>))\<lparr>path := redirectURL\<rparr>"

definition Redirect :: "string \<Rightarrow> Reply \<Rightarrow> Reply" where
  "Redirect redirectURL r = RedirectSts redirectURL StatusFound r"

text \<open>
  \<open>ess.IsStrEmpty\<close> belongs to the essentials library and is not part of the package:
  \<open>Header\<close> and \<open>IsContentTypeSet\<close> take it as the parameter \<open>isStrEmpty\<close>.
  \<open>Hdr.Set\<close> and \<open>Hdr.Add\<close> panic on a nil map, so \<open>Header\<close> and \<open>HeaderAppend\<close> return
  \<open>panic + Reply\<close>.
\<close>

definition Header :: "(string \<Rightarrow> bool) \<Rightarrow> string \<Rightarrow> string \<Rightarrow> Reply \<Rightarrow> panic + Reply" where
  "Header isStrEmpty key v r =
     (if isStrEmpty v then
        (if key = HeaderContentType then Inr (ContentType [] r)
         else Inr (r\<lparr>Hdr := http_Header_Del (Hdr r) key\<rparr>))
      else
        (if key = HeaderContentType then Inr (ContentType v r)
         else
           (case http_Header_Set (Hdr r) key v of
              Inl p \<Rightarrow> Inl p
            | Inr h \<Rightarrow> Inr (r\<lparr>Hdr := h\<rparr>))))"

definition HeaderAppend :: "string \<Rightarrow> string \<Rightarrow> Reply \<Rightarrow> panic + Reply" where
  "HeaderAppend key v r =
     (if key = HeaderContentType then Inr (ContentType v r)
      else
        (case http_Header_Add (Hdr r) key v of
           Inl p \<Rightarrow> Inl p
         | Inr h \<Rightarrow> Inr (r\<lparr>Hdr := h\<rparr>)))"

definition Done :: "Reply \<Rightarrow> Reply" where
  "Done r = r\<lparr>done' := True\<rparr>"

definition Cookie :: "Cookie \<Rightarrow> Reply \<Rightarrow> Reply" where
  "Cookie cookie r =
     (let r1 = (if cookies r = None then r\<lparr>cookies := Some []\<rparr> else r)
      in r1\<lparr>cookies := Some (elems (cookies r1) @ [cookie])\<rparr>)"

definition DisableGzip :: "Reply \<Rightarrow> Reply" where
  "DisableGzip r = r\<lparr>gzip := False\<rparr>"

definition IsContentTypeSet :: "(string \<Rightarrow> bool) \<Rightarrow> Reply \<Rightarrow> bool" where
  "IsContentTypeSet isStrEmpty r = (\<not> isStrEmpty (ContType r))"

definition Body :: "Reply \<Rightarrow> string option" where
  "Body r = body r"

definition Reset :: "Reply \<Rightarrow> Reply" where
  "Reset r =
     r\<lparr>Code := StatusOK, ContType := [], Hdr := Some Map.empty, Rdr := None, body := None,
       cookies := Some [], redirect := False, path := [], done' := False, gzip := True\<rparr>"

text \<open>
  Pointers. A store maps the address of each allocated \<open>Reply\<close> to its struct. Every
  method of the builder but \<open>Reset\<close>, \<open>Body\<close> and \<open>IsContentTypeSet\<close> ends in
  \<open>return r\<close> or returns what another method of \<open>r\<close> returned: \<open>invoke\<close> runs the
  effect of a method on the struct at \<open>r\<close>, writes it back and returns \<open>r\<close>. A receiver
  that points to no struct is the nil pointer, and the method panics when it
  dereferences it.
\<close>

type_synonym ref = nat
type_synonym store = "ref \<rightharpoonup> Reply"

definition invoke :: "(Reply \<Rightarrow> Reply) \<Rightarrow> ref \<Rightarrow> store \<Rightarrow> panic + (ref \<times> store)" where
  "invoke m r s =
     (case s r of
        None \<Rightarrow> Inl NilPointerDereference
      | Some v \<Rightarrow> Inr (r, s(r \<mapsto> m v)))"

section \<open>Static file delivery\<close>

text \<open>
  What the handler does to the \<open>http.ResponseWriter\<close> is a log of the calls made on
  it, in order. \<open>http.ServeContent\<close> (with the name and modification time it is given),
  \<open>http.Redirect\<close> (with the target and the status) and \<open>directoryList\<close> are logged
  as one call each.
\<close>

datatype resEvent =
    WriteHeader int
  | Fprintf string
  | http_Redirect string int
  | http_ServeContent string int
  | directoryList

type_synonym Response = "resEvent list"

record Route =
  IsFile :: bool
  File :: string
  Dir :: string
  ListDir :: bool

record Request =
  Path :: string
  Params :: "string \<rightharpoonup> string"

definition PathValue :: "Request \<Rightarrow> string \<Rightarrow> string" where
  "PathValue req key = (case Params req key of None \<Rightarrow> [] | Some v \<Rightarrow> v)"

record Context =
  Res :: Response
  Req :: Request
  reply :: Reply
  route :: Route

text \<open>
  What \<open>serveStatic\<close> calls and the sources do not hold: the base directory of the
  application, \<open>filepath.Join\<close>, the file system behind \<open>http.Dir.Open\<close>, and the
  engine's \<open>wrapGzipWriter\<close>, \<open>writeHeaders\<close> and the two event publishers, each of
  which receives the context and may change it. They are parameters of the model.
  The handler holds \<open>res\<close>, \<open>req\<close> and \<open>ctx\<close> as pointers: what it reads or writes
  through them after a call of the engine is the state that call left.
\<close>

record env =
  AppBaseDir :: string
  Join :: "string \<Rightarrow> string \<Rightarrow> string"
  Open :: "string \<Rightarrow> string \<Rightarrow> oserror + http_File"
  wrapGzipWriter :: "Context \<Rightarrow> Context"
  writeHeaders :: "Context \<Rightarrow> Context"
  publishOnPreReplyEvent :: "Context \<Rightarrow> Context"
  publishOnAfterReplyEvent :: "Context \<Rightarrow> Context"

datatype error = errFileNotFound

definition dirStatic :: string where
  "dirStatic = ''static''"

definition checkGzipRequired :: "string \<Rightarrow> bool" where
  "checkGzipRequired file =
     (let ext = filepath_Ext file
      in if ext = ''.css'' \<or> ext = ''.js'' \<or> ext = ''.html'' \<or> ext = ''.htm'' \<or>
            ext = ''.json'' \<or> ext = ''.xml'' \<or> ext = ''.txt'' \<or> ext = ''.csv'' \<or>
            ext = ''.ttf'' \<or> ext = ''.otf'' \<or> ext = ''.eot''
         then True
         else False)"

definition getHTTPDirAndFilePath :: "env \<Rightarrow> Context \<Rightarrow> string \<times> string" where
  "getHTTPDirAndFilePath e ctx =
     (if IsFile (route ctx) then (Join e (AppBaseDir e) dirStatic, File (route ctx))
      else (Join e (AppBaseDir e) (Dir (route ctx)), PathValue (Req ctx) ''filepath''))"

definition emit :: "Context \<Rightarrow> resEvent list \<Rightarrow> Context" where
  "emit ctx evs = ctx\<lparr>Res := Res ctx @ evs\<rparr>"

text \<open>
  The context after the gzip flag is set and \<open>wrapGzipWriter\<close> and \<open>writeHeaders\<close> have
  run: the state in which the handler looks at the file mode, the route and the
  request path.
\<close>

definition prepared :: "env \<Rightarrow> Context \<Rightarrow> string \<Rightarrow> Context" where
  "prepared e ctx filePath =
     writeHeaders e
       (wrapGzipWriter e (ctx\<lparr>reply := (reply ctx)\<lparr>gzip := checkGzipRequired filePath\<rparr>\<rparr>))"

text \<open>
  \<open>serveStatic\<close> returns the error value (\<open>None\<close> is nil) and the context it leaves,
  or panics. The log calls and the deferred close of the file touch neither and are
  left out. \<open>req.Path[len(req.Path)-1]\<close> is an index expression: on the empty string
  it panics.
\<close>

definition serveStatic :: "env \<Rightarrow> Context \<Rightarrow> panic + (error option \<times> Context)" where
  "serveStatic e ctx =
     (case getHTTPDirAndFilePath e ctx of
        (httpDir, filePath) \<Rightarrow>
          (case Open e httpDir filePath of
             Inl err \<Rightarrow>
               (if os_IsNotExist err then Inr (Some errFileNotFound, ctx)
                else if os_IsPermission err then
                  Inr (None, emit ctx [WriteHeader StatusForbidden, Fprintf ''403 Forbidden''])
                else
                  Inr (None, emit ctx [WriteHeader StatusInternalServerError,
                                       Fprintf ''500 Internal Server Error'']))
           | Inr f \<Rightarrow>
               (case Stat f of
                  Inl err \<Rightarrow>
                    Inr (None, emit ctx [WriteHeader StatusInternalServerError,
                                         Fprintf ''500 Internal Server Error''])
                | Inr fi \<Rightarrow>
                    (let ctx' = prepared e ctx filePath
                     in if IsRegular (Mode fi) then
                          Inr (None,
                               publishOnAfterReplyEvent e
                                 (emit (publishOnPreReplyEvent e ctx')
                                    [http_ServeContent (path_Base filePath) (ModTime fi)]))
                        else if IsDir (Mode fi) \<and> ListDir (route ctx') then
                          (if Path (Req ctx') = [] then Inl IndexOutOfRange
                           else if last (Path (Req ctx')) \<noteq> CHR ''/'' then
                             Inr (None,
                                  emit ctx' [http_Redirect (path_Base (Path (Req ctx')) @ ''/'')
                                               StatusFound])
                           else
                             Inr (None,
                                  publishOnAfterReplyEvent e
                                    (emit (publishOnPreReplyEvent e ctx') [directoryList])))
                        else
                          Inr (None, emit ctx' [WriteHeader StatusForbidden,
                                                Fprintf ''403 Directory listing not allowed''])))))"

section \<open>The view engine store\<close>

text \<open>
  \<open>AddViewEngine\<close> and the store of the view library behind it (\<open>view.AddEngine\<close>,
  \<open>view.GetEngine\<close>) are missing from the sources; only \<open>TestViewStore\<close> calls them.
  The store maps a name to its engine. An engine that may be nil is an \<open>option\<close>, and
  an error is its message (\<open>None\<close> is the nil error).
\<close>

type_synonym 'e viewStore = "string \<rightharpoonup> 'e"

text \<open>
  Modelled from the spec: the error of registering a nil engine, missing from the
  sources. The spec calls it an error distinct from the duplicate-registration error;
  the message is the one \<open>TestViewStore\<close> compares with.
\<close>

definition errEngineNil :: string where
  "errEngineNil = ''view: engine value is nil''"

text \<open>
  Modelled from the spec: the duplicate-registration error, missing from the sources.
  The spec calls it descriptive; the message, with the name in single quotes, is the
  one \<open>TestViewStore\<close> compares with.
\<close>

definition errEngineExists :: "string \<Rightarrow> string" where
  "errEngineExists name =
     ''view: engine name '' @ [CHR 0x27] @ name @ [CHR 0x27] @ '' is already added, skip it''"

text \<open>
  Modelled from the spec: \<open>AddViewEngine\<close>, missing from the sources. The spec says
  that registering a view engine under a name that already exists returns a
  duplicate-registration error and leaves the existing registration unchanged, and
  that registering a nil engine returns a distinct error. It does not say which check
  comes first: here the nil check does.
\<close>

definition AddViewEngine ::
  "string \<Rightarrow> 'e option \<Rightarrow> 'e viewStore \<Rightarrow> string option \<times> 'e viewStore" where
  "AddViewEngine name engine st =
     (case engine of
        None \<Rightarrow> (Some errEngineNil, st)
      | Some eng \<Rightarrow>
          (if st name \<noteq> None then (Some (errEngineExists name), st)
           else (None, st(name \<mapsto> eng))))"

text \<open>
  Modelled from the spec: \<open>view.GetEngine\<close>, missing from the sources, returns the
  engine registered under the name and whether there is one.
\<close>

definition GetEngine :: "string \<Rightarrow> 'e viewStore \<Rightarrow> 'e option \<times> bool" where
  "GetEngine name st = (st name, st name \<noteq> None)"

section \<open>Sample values\<close>

text \<open>
  Concrete values on which the definitions are run below. \<open>emptyOnly\<close> can stand for
  \<open>isStrEmpty\<close>: it holds of the empty string only, which is how the comment of
  \<open>Header\<close> words the test (\<open>value == ""\<close>). Every value it is applied to below is
  empty or holds a character that is no white space, so that a helper which counts
  blank strings as empty too gives the same results. \<open>sampleFS\<close> is a file system with a
  directory \<open>css\<close>, a regular file \<open>css/site.css\<close>, an entry that may not be opened,
  one whose opening fails otherwise, one whose \<open>Stat\<close> fails, and nothing else.
  \<open>sampleEnv\<close> has that file system and an engine whose four calls change nothing;
  \<open>sampleCtx\<close> is a request on a directory route with listing enabled.
\<close>

definition emptyOnly :: "string \<Rightarrow> bool" where
  "emptyOnly v = (v = [])"

definition sampleFS :: "string \<Rightarrow> string \<Rightarrow> oserror + http_File" where
  "sampleFS dir name =
     (if name = ''css'' then Inr \<lparr>Stat = Inr \<lparr>Mode = ModeDir, ModTime = 0\<rparr>\<rparr>
      else if name = ''css/site.css'' then Inr \<lparr>Stat = Inr \<lparr>Mode = ModeRegular, ModTime = 0\<rparr>\<rparr>
      else if name = ''private'' then Inl ErrPermission
      else if name = ''broken'' then Inl ErrOther
      else if name = ''stale'' then Inr \<lparr>Stat = Inl ErrOther\<rparr>
      else Inl ErrNotExist)"

definition sampleEnv :: env where
  "sampleEnv =
     \<lparr>AppBaseDir = ''/srv/app'', Join = (\<lambda>dir elem. dir @ ''/'' @ elem), Open = sampleFS,
      wrapGzipWriter = (\<lambda>ctx. ctx), writeHeaders = (\<lambda>ctx. ctx),
      publishOnPreReplyEvent = (\<lambda>ctx. ctx), publishOnAfterReplyEvent = (\<lambda>ctx. ctx)\<rparr>"

definition sampleCtx :: "string \<Rightarrow> string \<Rightarrow> Context" where
  "sampleCtx reqPath name =
     \<lparr>Res = [], Req = \<lparr>Path = reqPath, Params = [''filepath'' \<mapsto> name]\<rparr>, reply = NewReply,
      route = \<lparr>IsFile = False, File = [], Dir = ''static'', ListDir = True\<rparr>\<rparr>"

section \<open>Auxiliary facts\<close>

lemmas http_status_defs =
  StatusOK_def StatusCreated_def StatusAccepted_def StatusNoContent_def
  StatusMovedPermanently_def StatusFound_def StatusTemporaryRedirect_def
  StatusBadRequest_def StatusUnauthorized_def StatusForbidden_def StatusNotFound_def
  StatusMethodNotAllowed_def StatusConflict_def StatusInternalServerError_def
  StatusServiceUnavailable_def

lemmas status_method_defs =
  Ok_def Created_def Accepted_def NoContent_def MovedPermanently_def Found_def
  TemporaryRedirect_def BadRequest_def Unauthorized_def Forbidden_def NotFound_def
  MethodNotAllowed_def Conflict_def InternalServerError_def ServiceUnavailable_def

lemma extLoop_finds_dot:
  "\<forall>c\<in>set xs. c \<noteq> CHR ''/'' \<and> c \<noteq> CHR ''.'' \<Longrightarrow>
   extLoop (xs @ CHR ''.'' # ys) suffix = CHR ''.'' # rev xs @ suffix"
  by (induction xs arbitrary: suffix) (simp_all add: IsPathSeparator_def)

lemma filepath_Ext_suffix:
  "\<forall>c\<in>set t. c \<noteq> CHR ''/'' \<and> c \<noteq> CHR ''.'' \<Longrightarrow>
   filepath_Ext (base @ CHR ''.'' # t) = CHR ''.'' # t"
  using extLoop_finds_dot [of "rev t" "rev base" "[]"]
  by (simp add: filepath_Ext_def)

lemma path_Split_join: "fst (path_Split p) @ snd (path_Split p) = p"
proof -
  have "rev (takeWhile (\<lambda>c. c \<noteq> CHR ''/'') (rev p) @ dropWhile (\<lambda>c. c \<noteq> CHR ''/'') (rev p)) = p"
    by simp
  then show ?thesis
    by (simp add: path_Split_def del: takeWhile_dropWhile_id)
qed

lemma path_Base_no_trailing_slash:
  assumes "p \<noteq> []" and "last p \<noteq> CHR ''/''"
  shows "path_Base p = snd (path_Split p)"
proof -
  obtain c cs where rp: "rev p = c # cs" and c: "c \<noteq> CHR ''/''"
    using assms by (cases "rev p") (auto simp: last_rev hd_rev)
  have "dropWhile (\<lambda>c. c = CHR ''/'') (rev p) = rev p"
    using rp c by simp
  moreover have "takeWhile (\<lambda>c. c \<noteq> CHR ''/'') (rev p) \<noteq> []"
    using rp c by simp
  ultimately show ?thesis
    using assms(1) by (simp add: path_Base_def path_Split_def Let_def)
qed

lemma canonical_Content_Type:
  "CanonicalMIMEHeaderKey ''Content-Type'' = ''Content-Type''"
  "CanonicalMIMEHeaderKey ''content-type'' = ''Content-Type''"
  "CanonicalMIMEHeaderKey ''x-request-id'' = ''X-Request-Id''"
  by code_simp+

lemmas sample_defs =
  sampleEnv_def sampleCtx_def sampleFS_def getHTTPDirAndFilePath_def PathValue_def
  dirStatic_def

lemma sample_resolved:
  "getHTTPDirAndFilePath sampleEnv (sampleCtx reqPath name) = (''/srv/app/static'', name)"
  by (simp add: sample_defs)

lemma checkGzipRequired_css_dir: "checkGzipRequired ''css'' = False"
  by (simp add: checkGzipRequired_def filepath_Ext_def IsPathSeparator_def)

lemma sample_prepared:
  "prepared sampleEnv (sampleCtx reqPath ''css'') ''css''
     = (sampleCtx reqPath ''css'')\<lparr>reply := NewReply\<lparr>gzip := False\<rparr>\<rparr>"
  by (simp add: prepared_def sampleEnv_def sampleCtx_def checkGzipRequired_css_dir)

section \<open>Properties of the package\<close>

text \<open>
  C1. \<open>Header\<close> with the key \<open>Content-Type\<close> does what \<open>ContentType\<close> does: with a
  value that \<open>isStrEmpty\<close> holds of it leaves the struct \<open>ContentType("")\<close> leaves, with
  any other value \<open>v\<close> the struct \<open>ContentType(v)\<close> leaves. \<open>HeaderAppend\<close> with that
  key leaves the struct \<open>ContentType(v)\<close> leaves. Neither panics, and \<open>ContentType\<close>
  sets \<open>ContType\<close> and leaves \<open>Hdr\<close> as it was.
\<close>

theorem Header_Content_Type_is_ContentType:
  "Header isStrEmpty HeaderContentType v r
     = Inr (ContentType (if isStrEmpty v then [] else v) r)
   \<and> HeaderAppend HeaderContentType v r = Inr (ContentType v r)
   \<and> Hdr (ContentType v r) = Hdr r
   \<and> ContType (ContentType v r) = v"
  by (simp add: Header_def HeaderAppend_def ContentType_def)

text \<open>
  The test for the key is an exact comparison, and \<open>Hdr.Set\<close> and \<open>Hdr.Add\<close> store
  under the canonical form of the key: a key spelled \<open>content-type\<close> is not
  redirected, and \<open>Hdr\<close> gets an entry \<open>Content-Type\<close> while \<open>ContType\<close> stays empty.
\<close>

theorem Hdr_acquires_Content_Type_counterexample:
  "HeaderAppend ''content-type'' ''text/html'' NewReply
     = Inr (NewReply\<lparr>Hdr := Some [''Content-Type'' \<mapsto> [''text/html'']]\<rparr>)
   \<and> Header emptyOnly ''content-type'' ''text/html'' NewReply
     = Inr (NewReply\<lparr>Hdr := Some [''Content-Type'' \<mapsto> [''text/html'']]\<rparr>)
   \<and> ContType NewReply = []"
  by (simp add: HeaderAppend_def Header_def emptyOnly_def HeaderContentType_def
      http_Header_Add_def http_Header_Set_def canonical_Content_Type NewReply_def)

text \<open>
  C2. When opening the resolved path fails with an error that \<open>os.IsNotExist\<close>
  accepts, \<open>serveStatic\<close> returns \<open>errFileNotFound\<close> and leaves the context, the
  response in it included, as it was: no status and no body is written.
\<close>

theorem serveStatic_not_found:
  "getHTTPDirAndFilePath e ctx = (httpDir, filePath) \<Longrightarrow>
   Open e httpDir filePath = Inl err \<Longrightarrow> os_IsNotExist err \<Longrightarrow>
   serveStatic e ctx = Inr (Some errFileNotFound, ctx)"
  by (simp add: serveStatic_def)

theorem serveStatic_not_found_witness:
  "serveStatic sampleEnv (sampleCtx ''/assets/missing.js'' ''missing.js'')
     = Inr (Some errFileNotFound, sampleCtx ''/assets/missing.js'' ''missing.js'')
   \<and> Res (sampleCtx ''/assets/missing.js'' ''missing.js'') = []"
  using serveStatic_not_found [of sampleEnv "sampleCtx ''/assets/missing.js'' ''missing.js''"
      "''/srv/app/static''" "''missing.js''" ErrNotExist]
  by (simp add: sample_defs os_IsNotExist_def)

text \<open>
  C3. When opening the resolved path fails with a permission error, \<open>serveStatic\<close>
  writes status 403 and returns nil. When opening fails with an error that is
  neither a missing file nor a permission error, or when \<open>Stat\<close> on the opened file
  fails, it writes status 500 and returns nil. In each case that is all it does: the
  rest of the context is as it was, the gzip flag is not set and no call of the
  engine is made.
\<close>

theorem serveStatic_io_errors:
  "getHTTPDirAndFilePath e ctx = (httpDir, filePath) \<Longrightarrow>
     (Open e httpDir filePath = Inl err \<and> os_IsPermission err \<longrightarrow>
        serveStatic e ctx =
          Inr (None, ctx\<lparr>Res := Res ctx @ [WriteHeader 403, Fprintf ''403 Forbidden'']\<rparr>))
   \<and> (Open e httpDir filePath = Inl err \<and> \<not> os_IsNotExist err \<and> \<not> os_IsPermission err \<longrightarrow>
        serveStatic e ctx =
          Inr (None, ctx\<lparr>Res := Res ctx @ [WriteHeader 500, Fprintf ''500 Internal Server Error'']\<rparr>))
   \<and> (Open e httpDir filePath = Inr f \<and> Stat f = Inl err' \<longrightarrow>
        serveStatic e ctx =
          Inr (None, ctx\<lparr>Res := Res ctx @ [WriteHeader 500, Fprintf ''500 Internal Server Error'']\<rparr>))"
  by (auto simp add: serveStatic_def emit_def os_IsNotExist_def os_IsPermission_def
      StatusForbidden_def StatusInternalServerError_def)

theorem serveStatic_io_errors_witness:
  "serveStatic sampleEnv (sampleCtx ''/assets/private'' ''private'')
     = Inr (None, (sampleCtx ''/assets/private'' ''private'')
                    \<lparr>Res := [WriteHeader 403, Fprintf ''403 Forbidden'']\<rparr>)
   \<and> serveStatic sampleEnv (sampleCtx ''/assets/broken'' ''broken'')
     = Inr (None, (sampleCtx ''/assets/broken'' ''broken'')
                    \<lparr>Res := [WriteHeader 500, Fprintf ''500 Internal Server Error'']\<rparr>)
   \<and> serveStatic sampleEnv (sampleCtx ''/assets/stale'' ''stale'')
     = Inr (None, (sampleCtx ''/assets/stale'' ''stale'')
                    \<lparr>Res := [WriteHeader 500, Fprintf ''500 Internal Server Error'']\<rparr>)"
  using
    serveStatic_io_errors [of sampleEnv "sampleCtx ''/assets/private'' ''private''"
      "''/srv/app/static''" "''private''" ErrPermission]
    serveStatic_io_errors [of sampleEnv "sampleCtx ''/assets/broken'' ''broken''"
      "''/srv/app/static''" "''broken''" ErrOther]
    serveStatic_io_errors [of sampleEnv "sampleCtx ''/assets/stale'' ''stale''"
      "''/srv/app/static''" "''stale''" _ "\<lparr>Stat = Inl ErrOther\<rparr>" ErrOther]
  by (simp add: sample_defs os_IsNotExist_def os_IsPermission_def)

text \<open>
  C4. The path resolves to a directory, and, when the handler reaches the test,
  listing is enabled on the route and the request path is not empty and its last
  byte is not a slash. Then \<open>serveStatic\<close> makes one call of \<open>http.Redirect\<close> with
  status 302 on the response, nothing else, and returns nil; \<open>directoryList\<close> is not
  called. The target of that call is the last element of the request path followed
  by a slash, a relative reference: put after the directory part of the request path
  (which is how \<open>http.Redirect\<close> resolves it) it is the request path followed by a
  slash.
\<close>

theorem serveStatic_directory_redirect:
  assumes "getHTTPDirAndFilePath e ctx = (httpDir, filePath)"
    and "Open e httpDir filePath = Inr f"
    and "Stat f = Inr fi"
    and "IsDir (Mode fi)"
    and "ListDir (route (prepared e ctx filePath))"
    and "Path (Req (prepared e ctx filePath)) = reqPath"
    and "reqPath \<noteq> []"
    and "last reqPath \<noteq> CHR ''/''"
  shows "\<exists>target.
           serveStatic e ctx =
             Inr (None, (prepared e ctx filePath)
                    \<lparr>Res := Res (prepared e ctx filePath) @ [http_Redirect target 302]\<rparr>)
           \<and> target = path_Base reqPath @ ''/''
           \<and> fst (path_Split reqPath) @ target = reqPath @ ''/''"
proof -
  have notreg: "\<not> IsRegular (Mode fi)"
    using assms(4) by (simp add: IsDir_def IsRegular_def)
  have run: "serveStatic e ctx =
           Inr (None, (prepared e ctx filePath)
                  \<lparr>Res := Res (prepared e ctx filePath)
                            @ [http_Redirect (path_Base reqPath @ ''/'') 302]\<rparr>)"
    using assms notreg by (simp add: serveStatic_def Let_def emit_def StatusFound_def)
  have "fst (path_Split reqPath) @ path_Base reqPath = reqPath"
    using path_Base_no_trailing_slash [OF assms(7) assms(8)] path_Split_join [of reqPath]
    by simp
  then have "fst (path_Split reqPath) @ (path_Base reqPath @ ''/'') = reqPath @ ''/''"
    by simp
  with run show ?thesis
    by blast
qed

theorem serveStatic_directory_redirect_witness:
  "serveStatic sampleEnv (sampleCtx ''/assets/css'' ''css'')
     = Inr (None, (sampleCtx ''/assets/css'' ''css'')
                    \<lparr>Res := [http_Redirect ''css/'' 302], reply := NewReply\<lparr>gzip := False\<rparr>\<rparr>)
   \<and> fst (path_Split ''/assets/css'') @ ''css/'' = ''/assets/css/''"
proof -
  have base: "path_Base ''/assets/css'' = ''css''"
    by (simp add: path_Base_def)
  show ?thesis
    using serveStatic_directory_redirect [of sampleEnv "sampleCtx ''/assets/css'' ''css''"
        "''/srv/app/static''" "''css''" "\<lparr>Stat = Inr \<lparr>Mode = ModeDir, ModTime = 0\<rparr>\<rparr>"
        "\<lparr>Mode = ModeDir, ModTime = 0\<rparr>" "''/assets/css''"]
    by (simp add: base sample_prepared sample_resolved)
       (simp add: sampleEnv_def sampleCtx_def sampleFS_def IsDir_def)
qed

text \<open>
  The empty request path does not end in a slash either, and there the handler does
  not redirect: the index expression \<open>req.Path[len(req.Path)-1]\<close> panics, on the same
  directory and with listing enabled.
\<close>

theorem serveStatic_empty_path_counterexample:
  "serveStatic sampleEnv (sampleCtx [] ''css'') = Inl IndexOutOfRange
   \<and> ListDir (route (sampleCtx [] ''css''))
   \<and> Open sampleEnv ''/srv/app/static'' ''css''
       = Inr \<lparr>Stat = Inr \<lparr>Mode = ModeDir, ModTime = 0\<rparr>\<rparr>
   \<and> Path (Req (sampleCtx [] ''css'')) = []"
proof -
  have opened: "Open sampleEnv ''/srv/app/static'' ''css''
                  = Inr \<lparr>Stat = Inr \<lparr>Mode = ModeDir, ModTime = 0\<rparr>\<rparr>"
    by (simp add: sampleEnv_def sampleFS_def)
  have listing: "ListDir (route (prepared sampleEnv (sampleCtx [] ''css'') ''css''))"
    by (simp add: sample_prepared) (simp add: sampleCtx_def)
  have empty: "Path (Req (prepared sampleEnv (sampleCtx [] ''css'') ''css'')) = []"
    by (simp add: sample_prepared) (simp add: sampleCtx_def)
  have "serveStatic sampleEnv (sampleCtx [] ''css'') = Inl IndexOutOfRange"
    by (simp add: serveStatic_def sample_resolved opened Let_def listing empty
        IsDir_def IsRegular_def)
  moreover have "ListDir (route (sampleCtx [] ''css''))"
    by (simp add: sampleCtx_def)
  moreover have "Path (Req (sampleCtx [] ''css'')) = []"
    by (simp add: sampleCtx_def)
  ultimately show ?thesis
    using opened by simp
qed

text \<open>
  C5. \<open>checkGzipRequired\<close> is true exactly when \<open>filepath.Ext\<close> of the path is one of
  \<open>.css .js .html .htm .json .xml .txt .csv .ttf .otf .eot\<close>. The path is its only
  argument, so nothing of the file's content enters. Any path that ends in \<open>.css\<close>,
  \<open>.js\<close> or \<open>.json\<close> gives true, any path that ends in \<open>.png\<close> gives false.
\<close>

theorem checkGzipRequired_allow_list:
  "checkGzipRequired file =
     (filepath_Ext file \<in> {''.css'', ''.js'', ''.html'', ''.htm'', ''.json'', ''.xml'',
                            ''.txt'', ''.csv'', ''.ttf'', ''.otf'', ''.eot''})
   \<and> checkGzipRequired (base @ ''.css'')
   \<and> checkGzipRequired (base @ ''.js'')
   \<and> checkGzipRequired (base @ ''.json'')
   \<and> \<not> checkGzipRequired (base @ ''.png'')"
proof -
  have css: "filepath_Ext (base @ ''.css'') = ''.css''"
    using filepath_Ext_suffix [of "''css''" base] by simp
  have js: "filepath_Ext (base @ ''.js'') = ''.js''"
    using filepath_Ext_suffix [of "''js''" base] by simp
  have json: "filepath_Ext (base @ ''.json'') = ''.json''"
    using filepath_Ext_suffix [of "''json''" base] by simp
  have png: "filepath_Ext (base @ ''.png'') = ''.png''"
    using filepath_Ext_suffix [of "''png''" base] by simp
  have allow: "checkGzipRequired file =
     (filepath_Ext file \<in> {''.css'', ''.js'', ''.html'', ''.htm'', ''.json'', ''.xml'',
                            ''.txt'', ''.csv'', ''.ttf'', ''.otf'', ''.eot''})"
    by (simp add: checkGzipRequired_def Let_def)
  have "checkGzipRequired (base @ ''.css'')"
    by (simp add: checkGzipRequired_def css)
  moreover have "checkGzipRequired (base @ ''.js'')"
    by (simp add: checkGzipRequired_def js)
  moreover have "checkGzipRequired (base @ ''.json'')"
    by (simp add: checkGzipRequired_def json)
  moreover have "\<not> checkGzipRequired (base @ ''.png'')"
    by (simp add: checkGzipRequired_def png)
  ultimately show ?thesis
    using allow by blast
qed

text \<open>
  C6. \<open>Reset\<close> leaves, from any state, Code 200, an empty ContType, a non-nil empty
  header map, no renderer, no body, an empty cookie slice, redirect false, an empty
  redirect path, done false and gzip true. That is the struct \<open>NewReply\<close> builds but
  for one thing no reader of the slice can tell: \<open>NewReply\<close> leaves the cookie slice
  nil and \<open>Reset\<close> makes it empty and non-nil. Both hold no cookie, and adding a cookie
  to either gives the same struct.
\<close>

theorem Reset_restores_initial_state:
  "Reset r =
     \<lparr>Code = 200, ContType = [], Hdr = Some Map.empty, Rdr = None, body = None,
      cookies = Some [], redirect = False, path = [], done' = False, gzip = True\<rparr>
   \<and> Reset r = NewReply\<lparr>cookies := Some []\<rparr>
   \<and> elems (cookies (Reset r)) = []
   \<and> elems (cookies NewReply) = []
   \<and> Cookie c (Reset r) = Cookie c NewReply"
  by (simp add: Reset_def NewReply_def StatusOK_def elems_def Cookie_def)

text \<open>
  C7. Called on a pointer \<open>p\<close> to a struct \<open>r\<close>, each status method returns \<open>p\<close>
  itself and leaves at \<open>p\<close> the struct \<open>r\<close> with \<open>Code\<close> set to the method's number
  and every other field as it was; no other struct of the store changes.
\<close>

theorem status_methods_set_Code:
  "s p = Some r \<Longrightarrow>
     invoke Ok p s = Inr (p, s(p \<mapsto> r\<lparr>Code := 200\<rparr>))
   \<and> invoke Created p s = Inr (p, s(p \<mapsto> r\<lparr>Code := 201\<rparr>))
   \<and> invoke Accepted p s = Inr (p, s(p \<mapsto> r\<lparr>Code := 202\<rparr>))
   \<and> invoke NoContent p s = Inr (p, s(p \<mapsto> r\<lparr>Code := 204\<rparr>))
   \<and> invoke MovedPermanently p s = Inr (p, s(p \<mapsto> r\<lparr>Code := 301\<rparr>))
   \<and> invoke Found p s = Inr (p, s(p \<mapsto> r\<lparr>Code := 302\<rparr>))
   \<and> invoke TemporaryRedirect p s = Inr (p, s(p \<mapsto> r\<lparr>Code := 307\<rparr>))
   \<and> invoke BadRequest p s = Inr (p, s(p \<mapsto> r\<lparr>Code := 400\<rparr>))
   \<and> invoke Unauthorized p s = Inr (p, s(p \<mapsto> r\<lparr>Code := 401\<rparr>))
   \<and> invoke Forbidden p s = Inr (p, s(p \<mapsto> r\<lparr>Code := 403\<rparr>))
   \<and> invoke NotFound p s = Inr (p, s(p \<mapsto> r\<lparr>Code := 404\<rparr>))
   \<and> invoke MethodNotAllowed p s = Inr (p, s(p \<mapsto> r\<lparr>Code := 405\<rparr>))
   \<and> invoke Conflict p s = Inr (p, s(p \<mapsto> r\<lparr>Code := 409\<rparr>))
   \<and> invoke InternalServerError p s = Inr (p, s(p \<mapsto> r\<lparr>Code := 500\<rparr>))
   \<and> invoke ServiceUnavailable p s = Inr (p, s(p \<mapsto> r\<lparr>Code := 503\<rparr>))"
  by (simp add: invoke_def status_method_defs Status_def http_status_defs)

theorem status_methods_set_Code_witness:
  "invoke NotFound 1 [1 \<mapsto> NewReply, 2 \<mapsto> Done NewReply]
     = Inr (1, [1 \<mapsto> NewReply\<lparr>Code := 404\<rparr>, 2 \<mapsto> Done NewReply])
   \<and> invoke Created 2 [1 \<mapsto> NewReply, 2 \<mapsto> Done NewReply]
     = Inr (2, [1 \<mapsto> NewReply, 2 \<mapsto> (Done NewReply)\<lparr>Code := 201\<rparr>])"
  using status_methods_set_Code [of "[1 \<mapsto> NewReply, 2 \<mapsto> Done NewReply]" 1 NewReply]
    status_methods_set_Code [of "[1 \<mapsto> NewReply, 2 \<mapsto> Done NewReply]" 2 "Done NewReply"]
  by (simp add: fun_upd_twist)

text \<open>
  C8. For a key other than \<open>Content-Type\<close> and a struct whose header map is not nil:
  with a value that \<open>isStrEmpty\<close> holds of, \<open>Header\<close> deletes the canonical form of
  the key from \<open>Hdr\<close>, whatever was stored there, and \<open>Hdr.Get(key)\<close> is empty
  afterwards; with any other value it stores that value alone under the canonical
  form of the key, in place of what was there, and \<open>Hdr.Get(key)\<close> returns it. No
  other entry and no other field changes. So a value stored by one call is erased by
  a later call with a value that \<open>isStrEmpty\<close> holds of.
\<close>

theorem Header_deletes_or_overwrites:
  "key \<noteq> HeaderContentType \<Longrightarrow> Hdr r = Some m \<Longrightarrow>
     Header isStrEmpty key v r
       = Inr (r\<lparr>Hdr := Some (if isStrEmpty v then m(CanonicalMIMEHeaderKey key := None)
                               else m(CanonicalMIMEHeaderKey key \<mapsto> [v]))\<rparr>)
     \<and> http_Header_Get
          (Some (if isStrEmpty v then m(CanonicalMIMEHeaderKey key := None)
                 else m(CanonicalMIMEHeaderKey key \<mapsto> [v]))) key
       = (if isStrEmpty v then [] else v)
     \<and> (\<not> isStrEmpty v \<and> isStrEmpty v0 \<longrightarrow>
          (case Header isStrEmpty key v r of
             Inl p \<Rightarrow> Inl p
           | Inr r1 \<Rightarrow> Header isStrEmpty key v0 r1)
            = Inr (r\<lparr>Hdr := Some (m(CanonicalMIMEHeaderKey key := None))\<rparr>))"
  by (simp add: Header_def http_Header_Del_def http_Header_Set_def http_Header_Get_def)

theorem Header_deletes_or_overwrites_witness:
  "Header emptyOnly ''x-request-id'' [] (NewReply\<lparr>Hdr := Some [''X-Request-Id'' \<mapsto> [''41'']]\<rparr>)
     = Inr NewReply
   \<and> Header emptyOnly ''x-request-id'' ''42'' (NewReply\<lparr>Hdr := Some [''X-Request-Id'' \<mapsto> [''41'']]\<rparr>)
     = Inr (NewReply\<lparr>Hdr := Some [''X-Request-Id'' \<mapsto> [''42'']]\<rparr>)
   \<and> (case Header emptyOnly ''x-request-id'' ''42'' NewReply of
         Inl p \<Rightarrow> Inl p
       | Inr r1 \<Rightarrow> Header emptyOnly ''x-request-id'' [] r1)
     = Inr NewReply"
  using
    Header_deletes_or_overwrites [of "''x-request-id''"
      "NewReply\<lparr>Hdr := Some [''X-Request-Id'' \<mapsto> [''41'']]\<rparr>" "[''X-Request-Id'' \<mapsto> [''41'']]"
      emptyOnly "[]"]
    Header_deletes_or_overwrites [of "''x-request-id''"
      "NewReply\<lparr>Hdr := Some [''X-Request-Id'' \<mapsto> [''41'']]\<rparr>" "[''X-Request-Id'' \<mapsto> [''41'']]"
      emptyOnly "''42''"]
    Header_deletes_or_overwrites [of "''x-request-id''" NewReply Map.empty emptyOnly "''42''" "[]"]
  by (simp add: emptyOnly_def HeaderContentType_def canonical_Content_Type NewReply_def
      split: sum.splits)

text \<open>
  With the key \<open>Content-Type\<close> the call goes to \<open>ContentType\<close> and never touches
  \<open>Hdr\<close>: an entry \<open>Content-Type\<close> of \<open>Hdr\<close> (here put there by \<open>HeaderAppend\<close> under
  the spelling \<open>content-type\<close>) is neither removed by an empty value nor overwritten
  by another one. On a nil header map, storing a value panics.
\<close>

theorem Header_Content_Type_key_counterexample:
  "HeaderAppend ''content-type'' ''text/plain'' NewReply
     = Inr (NewReply\<lparr>Hdr := Some [''Content-Type'' \<mapsto> [''text/plain'']]\<rparr>)
   \<and> Header emptyOnly ''Content-Type'' [] (NewReply\<lparr>Hdr := Some [''Content-Type'' \<mapsto> [''text/plain'']]\<rparr>)
     = Inr (NewReply\<lparr>Hdr := Some [''Content-Type'' \<mapsto> [''text/plain'']]\<rparr>)
   \<and> Header emptyOnly ''Content-Type'' ''text/html''
        (NewReply\<lparr>Hdr := Some [''Content-Type'' \<mapsto> [''text/plain'']]\<rparr>)
     = Inr (NewReply\<lparr>Hdr := Some [''Content-Type'' \<mapsto> [''text/plain'']], ContType := ''text/html''\<rparr>)
   \<and> http_Header_Get (Some [''Content-Type'' \<mapsto> [''text/plain'']]) ''Content-Type'' = ''text/plain''
   \<and> Header emptyOnly ''X-Request-Id'' ''42'' (NewReply\<lparr>Hdr := None\<rparr>) = Inl NilMapAssignment"
  by (simp add: HeaderAppend_def Header_def emptyOnly_def HeaderContentType_def ContentType_def
      http_Header_Add_def http_Header_Set_def http_Header_Get_def canonical_Content_Type
      NewReply_def)

text \<open>
  C9. Registering an engine under a name that is already registered returns the
  duplicate-registration error, which names the name, and leaves the store as it
  was: the engine registered before is still the one \<open>GetEngine\<close> returns.
  Registering a nil engine returns the nil-engine error, a different message, and
  leaves the store as it was. \<open>AddViewEngine\<close> is a total function: in both cases it
  returns a value.
\<close>

theorem AddViewEngine_duplicate_and_nil:
  "(st name = Some registered \<longrightarrow>
      AddViewEngine name (Some eng) st = (Some (errEngineExists name), st)
      \<and> GetEngine name (snd (AddViewEngine name (Some eng) st)) = (Some registered, True))
   \<and> AddViewEngine name None st = (Some errEngineNil, st)
   \<and> errEngineNil \<noteq> errEngineExists name"
  by (simp add: AddViewEngine_def GetEngine_def errEngineNil_def errEngineExists_def)

theorem AddViewEngine_duplicate_and_nil_witness:
  "AddViewEngine ''go'' (Some (2::nat)) [''go'' \<mapsto> 1]
     = (Some ''view: engine name 'go' is already added, skip it'', [''go'' \<mapsto> 1])
   \<and> GetEngine ''go'' (snd (AddViewEngine ''go'' (Some (2::nat)) [''go'' \<mapsto> 1])) = (Some 1, True)
   \<and> AddViewEngine ''custom'' None [''go'' \<mapsto> (1::nat)]
     = (Some ''view: engine value is nil'', [''go'' \<mapsto> 1])
   \<and> GetEngine ''myengine'' [''go'' \<mapsto> (1::nat)] = (None, False)"
  using AddViewEngine_duplicate_and_nil [of "[''go'' \<mapsto> (1::nat)]" "''go''" 1 2]
    AddViewEngine_duplicate_and_nil [of "[''go'' \<mapsto> (1::nat)]" "''custom''" 1 2]
  by (simp add: errEngineNil_def errEngineExists_def GetEngine_def)

text \<open>
  C10. On a directory with listing enabled the handler evaluates
  \<open>req.Path[len(req.Path)-1]\<close>. It panics with an index out of range exactly when the
  request path is empty; with any other path it returns.
\<close>

theorem serveStatic_index_out_of_range:
  assumes "getHTTPDirAndFilePath e ctx = (httpDir, filePath)"
    and "Open e httpDir filePath = Inr f"
    and "Stat f = Inr fi"
    and "IsDir (Mode fi)"
    and "ListDir (route (prepared e ctx filePath))"
  shows "(serveStatic e ctx = Inl IndexOutOfRange) = (Path (Req (prepared e ctx filePath)) = [])
         \<and> isl (serveStatic e ctx) = (Path (Req (prepared e ctx filePath)) = [])"
proof -
  have notreg: "\<not> IsRegular (Mode fi)"
    using assms(4) by (simp add: IsDir_def IsRegular_def)
  show ?thesis
    using assms notreg by (simp add: serveStatic_def Let_def)
qed

theorem serveStatic_index_out_of_range_witness:
  "serveStatic sampleEnv (sampleCtx [] ''css'') = Inl IndexOutOfRange
   \<and> serveStatic sampleEnv (sampleCtx ''/assets/css'' ''css'') \<noteq> Inl IndexOutOfRange
   \<and> \<not> isl (serveStatic sampleEnv (sampleCtx ''/assets/css/'' ''css''))"
  using
    serveStatic_index_out_of_range [of sampleEnv "sampleCtx [] ''css''"
        "''/srv/app/static''" "''css''" "\<lparr>Stat = Inr \<lparr>Mode = ModeDir, ModTime = 0\<rparr>\<rparr>"
        "\<lparr>Mode = ModeDir, ModTime = 0\<rparr>"]
    serveStatic_index_out_of_range [of sampleEnv "sampleCtx ''/assets/css'' ''css''"
        "''/srv/app/static''" "''css''" "\<lparr>Stat = Inr \<lparr>Mode = ModeDir, ModTime = 0\<rparr>\<rparr>"
        "\<lparr>Mode = ModeDir, ModTime = 0\<rparr>"]
    serveStatic_index_out_of_range [of sampleEnv "sampleCtx ''/assets/css/'' ''css''"
        "''/srv/app/static''" "''css''" "\<lparr>Stat = Inr \<lparr>Mode = ModeDir, ModTime = 0\<rparr>\<rparr>"
        "\<lparr>Mode = ModeDir, ModTime = 0\<rparr>"]
  by (simp add: sample_prepared sample_resolved)
     (simp add: sampleEnv_def sampleCtx_def sampleFS_def IsDir_def)

end
